theory Spec2Isabelle
  imports Complex_Main "HOL-Library.AList" "HOL-Library.Multiset"
begin

section \<open>The credit card valuation and ranking engine\<close>

text \<open>
  A shallow embedding of \<^verbatim>\<open>src/utils/calculator.py\<close> and of the parts of
  \<^verbatim>\<open>src/data/credit_cards.py\<close> it reads.

  Modelling conventions.
  \<^item> Python's unbounded \<^verbatim>\<open>int\<close> is \<open>int\<close>.
  \<^item> Python's \<^verbatim>\<open>float\<close> is \<open>real\<close>: the arithmetic is exact, the operations are
    kept in the order the source performs them, and rounding, infinities and NaN are
    outside the model.
  \<^item> A dictionary that is only looked up (\<^verbatim>\<open>category_multipliers\<close>,
    \<^verbatim>\<open>POINT_VALUATION\<close>) is a map. A dictionary that is iterated
    (\<^verbatim>\<open>monthly_spends\<close>, \<^verbatim>\<open>milestone_benefits\<close>, \<^verbatim>\<open>category_rewards\<close>) is
    an association list in insertion order; such a list stands for a dictionary when its
    keys are distinct.
  \<^item> The only exception the arithmetic of the module can raise is a division by zero;
    it is a value of type \<open>py_error\<close>, and a function that may raise returns
    \<open>py_error + 'a\<close>.
  \<^item> A text produced by an f-string that formats a float (\<^verbatim>\<open>:,.0f\<close>, \<^verbatim>\<open>:.1f\<close>) is
    represented by the values it interpolates, since the digits printed for a float
    depend on its binary rounding. The text that formats only integers (the reason of an
    ineligible result) is built character by character.
\<close>

subsection \<open>Data model\<close>

datatype py_error = ZeroDivisionError

type_synonym spends = "(string \<times> int) list"

record card =
  card_name :: string
  bank :: string
  annual_fee :: int
  fee_waiver_threshold :: int
  min_salary_req :: int
  base_reward_rate :: real
  category_multipliers :: "string \<rightharpoonup> real"
  lounge_access :: string
  lounge_visits_per_quarter :: int
  milestone_benefits :: "(int \<times> int) list"
  fuel_surcharge_waiver :: bool
  card_type :: string
  joining_fee :: int
  welcome_benefit :: int
  description :: string

text \<open>
  One entry of \<^verbatim>\<open>achieved_milestones\<close>: the threshold, the points and the rupee value
  that the f-string of \<^verbatim>\<open>calculate_milestone_benefits\<close> prints.
\<close>

datatype achievement = Achievement int int real

text \<open>
  One entry of the list \<^verbatim>\<open>reasons\<close> of \<^verbatim>\<open>calculate_net_value\<close>, and the value of
  \<^verbatim>\<open>why_recommended\<close>: the entries joined by \<^verbatim>\<open>" | "\<close>, or the fixed text
  \<^verbatim>\<open>"Basic rewards on all spends"\<close> when there is none.
\<close>

datatype reason_part =
    Best_category_rate real string
  | Fee_waived_above int
  | Lifetime_free_card
  | Milestones_achieved nat
  | Unlimited_lounge_access
  | Lounge_visits_per_year int

datatype explanation = Joined "reason_part list" | Basic_rewards_on_all_spends

record breakdown =
  bd_annual_fee :: int
  effective_fee :: int
  fee_waived :: bool
  total_rewards :: real
  category_rewards :: "(string \<times> real) list"
  milestone_value :: real
  achieved_milestones :: "achievement list"
  lounge_value :: real
  welcome_value :: int
  gross_benefits :: real
  total_annual_spend :: int

text \<open>
  The dictionary returned by \<^verbatim>\<open>calculate_net_value\<close>. The two return statements build
  dictionaries with different keys: a key that a result does not have is \<open>None\<close>, and so
  is the empty dictionary \<^verbatim>\<open>{}\<close> that an ineligible result stores under
  \<^verbatim>\<open>"breakdown"\<close>.
\<close>

record analysis =
  res_card_name :: string
  res_bank :: string
  res_card_type :: "string option"
  is_eligible :: bool
  net_value :: real
  effective_reward_rate :: "real option"
  reason :: "string option"
  breakdown :: "breakdown option"
  why_recommended :: "explanation option"
  res_lounge_access :: "string option"
  res_description :: "string option"

subsection \<open>Python built-ins used by the module\<close>

definition dict_get :: "('k \<rightharpoonup> 'v) \<Rightarrow> 'k \<Rightarrow> 'v \<Rightarrow> 'v" where
  "dict_get m k d = (case m k of None \<Rightarrow> d | Some v \<Rightarrow> v)"

definition py_truediv :: "real \<Rightarrow> real \<Rightarrow> py_error + real" where
  "py_truediv a b = (if b = 0 then Inl ZeroDivisionError else Inr (a / b))"

text \<open>
  \<^verbatim>\<open>max(d, key=d.get)\<close> on a non-empty dictionary: the first key, in iteration order,
  whose value is maximal. The candidate is replaced only by a strictly greater value.
\<close>

fun max_from :: "string \<times> real \<Rightarrow> (string \<times> real) list \<Rightarrow> string \<times> real" where
  "max_from best [] = best"
| "max_from best (kv # rest) =
     (if snd kv > snd best then max_from kv rest else max_from best rest)"

text \<open>
  \<^verbatim>\<open>results.sort(key=..., reverse=True)\<close>: Python's sort is stable, and with
  \<^verbatim>\<open>reverse=True\<close> it reverses the list, sorts it in ascending order and reverses the
  result, so that elements with equal keys keep their original order.
\<close>

definition py_sort_reverse :: "('a \<Rightarrow> real) \<Rightarrow> 'a list \<Rightarrow> 'a list" where
  "py_sort_reverse key xs = rev (sort_key key (rev xs))"

text \<open>The format \<^verbatim>\<open>{n:,}\<close> of an integer: decimal digits in groups of three.\<close>

fun digits :: "nat \<Rightarrow> string" where
  "digits n =
     (if n < 10 then [''0123456789'' ! n]
      else digits (n div 10) @ [''0123456789'' ! (n mod 10)])"

declare digits.simps [simp del]

fun group3 :: "string \<Rightarrow> string" where
  "group3 (a # b # c # d # rest) = a # b # c # CHR '','' # group3 (d # rest)"
| "group3 s = s"

definition fmt_int_commas :: "int \<Rightarrow> string" where
  "fmt_int_commas i =
     (if i < 0 then CHR ''-'' # rev (group3 (rev (digits (nat (- i)))))
      else rev (group3 (rev (digits (nat i)))))"

text \<open>The rupee sign U+20B9, as its three UTF-8 bytes.\<close>

definition rupee :: string where
  "rupee = [CHR 0xE2, CHR 0x82, CHR 0xB9]"

subsection \<open>The point valuation table\<close>

definition POINT_VALUATION :: "string \<rightharpoonup> real" where
  "POINT_VALUATION = map_of
     [(''HDFC'', 0.50), (''SBI'', 0.25), (''Axis'', 0.50), (''ICICI'', 0.25),
      (''Amex'', 0.50), (''RBL'', 0.25), (''IndusInd'', 0.50)]"

subsection \<open>The calculator\<close>

definition calculate_annual_spend :: "spends \<Rightarrow> spends" where
  "calculate_annual_spend monthly_spends =
     map (\<lambda>(category, amount). (category, amount * 12)) monthly_spends"

definition calculate_total_spend :: "spends \<Rightarrow> int" where
  "calculate_total_spend spends = sum_list (map snd spends)"

definition check_eligibility :: "card \<Rightarrow> int \<Rightarrow> bool" where
  "check_eligibility c monthly_salary \<longleftrightarrow> monthly_salary \<ge> min_salary_req c"

definition calculate_effective_fee :: "card \<Rightarrow> int \<Rightarrow> int" where
  "calculate_effective_fee c annual_spend =
     (if fee_waiver_threshold c = 0 then 0
      else if annual_spend \<ge> fee_waiver_threshold c then 0
      else annual_fee c)"

text \<open>
  The loop of \<^verbatim>\<open>calculate_base_rewards\<close>, with its two accumulators. The assignment
  \<^verbatim>\<open>category_rewards[user_category] = reward_value\<close> overwrites the entry of a key
  that is already there and appends a new key at the end. The variables
  \<^verbatim>\<open>point_value\<close> and \<^verbatim>\<open>category_mapping\<close> of the source are never read.
\<close>

fun base_rewards_loop ::
  "card \<Rightarrow> spends \<Rightarrow> real \<Rightarrow> (string \<times> real) list \<Rightarrow> real \<times> (string \<times> real) list" where
  "base_rewards_loop c [] tot cr = (tot, cr)"
| "base_rewards_loop c ((user_category, amount) # rest) tot cr =
     (let reward_rate =
            (if user_category = ''general'' then base_reward_rate c
             else dict_get (category_multipliers c) user_category (base_reward_rate c));
          reward_value = of_int amount * reward_rate
      in base_rewards_loop c rest (tot + reward_value)
           (AList.update user_category reward_value cr))"

definition calculate_base_rewards :: "card \<Rightarrow> spends \<Rightarrow> real \<times> (string \<times> real) list" where
  "calculate_base_rewards c annual_spends = base_rewards_loop c annual_spends 0 []"

text \<open>
  The loop of \<^verbatim>\<open>calculate_milestone_benefits\<close>. The thresholds of a card record are
  integers, so the conversion of a string key by \<^verbatim>\<open>int(threshold)\<close> does not apply.
\<close>

fun milestone_loop ::
  "real \<Rightarrow> int \<Rightarrow> (int \<times> int) list \<Rightarrow> real \<Rightarrow> achievement list \<Rightarrow> real \<times> achievement list" where
  "milestone_loop point_value annual_spend [] tot achieved = (tot, achieved)"
| "milestone_loop point_value annual_spend ((threshold, points) # rest) tot achieved =
     (if annual_spend \<ge> threshold then
        (let v = of_int points * point_value
         in milestone_loop point_value annual_spend rest (tot + v)
              (achieved @ [Achievement threshold points v]))
      else milestone_loop point_value annual_spend rest tot achieved)"

definition calculate_milestone_benefits :: "card \<Rightarrow> int \<Rightarrow> real \<times> achievement list" where
  "calculate_milestone_benefits c annual_spend =
     (let point_value = dict_get POINT_VALUATION (bank c) 0.25
      in milestone_loop point_value annual_spend (milestone_benefits c) 0 [])"

definition calculate_lounge_value :: "card \<Rightarrow> bool \<Rightarrow> real" where
  "calculate_lounge_value c needs_lounge =
     (if \<not> needs_lounge then 0
      else let quarterly_visits = lounge_visits_per_quarter c in
        if quarterly_visits \<ge> 999 then of_int (12 * 1500)
        else of_int (quarterly_visits * 4 * 1500))"

text \<open>The block of \<^verbatim>\<open>calculate_net_value\<close> that fills the list \<^verbatim>\<open>reasons\<close>.\<close>

definition recommendation_reasons ::
  "card \<Rightarrow> (string \<times> real) list \<Rightarrow> bool \<Rightarrow> achievement list \<Rightarrow> real \<Rightarrow> reason_part list" where
  "recommendation_reasons c cat_rewards waived achieved lounge =
     (case cat_rewards of
        [] \<Rightarrow> []
      | kv # rest \<Rightarrow>
          (let (best_category, best_category_value) = max_from kv rest in
           if best_category_value > 0 then
             [Best_category_rate
                (dict_get (category_multipliers c) best_category (base_reward_rate c) * 100)
                best_category]
           else []))
     @ (if waived then [Fee_waived_above (fee_waiver_threshold c)]
        else if annual_fee c = 0 then [Lifetime_free_card] else [])
     @ (if achieved \<noteq> [] then [Milestones_achieved (length achieved)] else [])
     @ (if lounge > 0 then
          (if lounge_visits_per_quarter c \<ge> 999 then [Unlimited_lounge_access]
           else [Lounge_visits_per_year (lounge_visits_per_quarter c * 4)])
        else [])"

definition ineligible_result :: "card \<Rightarrow> analysis" where
  "ineligible_result c =
     \<lparr> res_card_name = card_name c,
       res_bank = bank c,
       res_card_type = None,
       is_eligible = False,
       net_value = 0,
       effective_reward_rate = None,
       reason = Some (''Requires minimum salary of '' @ rupee
                      @ fmt_int_commas (min_salary_req c) @ ''/month''),
       breakdown = None,
       why_recommended = None,
       res_lounge_access = None,
       res_description = None \<rparr>"

definition calculate_net_value ::
  "card \<Rightarrow> int \<Rightarrow> spends \<Rightarrow> bool \<Rightarrow> bool \<Rightarrow> py_error + analysis" where
  "calculate_net_value c monthly_salary monthly_spends needs_lounge is_first_year =
     (if \<not> check_eligibility c monthly_salary then Inr (ineligible_result c)
      else
        let annual_spends = calculate_annual_spend monthly_spends;
            tas = calculate_total_spend annual_spends;
            fee = calculate_effective_fee c tas;
            waived = (fee = 0 \<and> annual_fee c > 0);
            (rewards, cat_rewards) = calculate_base_rewards c annual_spends;
            (milestones, achieved) = calculate_milestone_benefits c tas;
            lounge = calculate_lounge_value c needs_lounge;
            welcome = (if is_first_year then welcome_benefit c else 0);
            gross = rewards + milestones + lounge + of_int welcome;
            net = gross - of_int fee;
            reasons = recommendation_reasons c cat_rewards waived achieved lounge
        in
          case (if tas > 0 then
                  (case py_truediv rewards (of_int tas) of
                     Inl e \<Rightarrow> Inl e
                   | Inr q \<Rightarrow> Inr (q * 100))
                else Inr 0) of
            Inl e \<Rightarrow> Inl e
          | Inr rate \<Rightarrow>
              Inr \<lparr> res_card_name = card_name c,
                    res_bank = bank c,
                    res_card_type = Some (card_type c),
                    is_eligible = True,
                    net_value = net,
                    effective_reward_rate = Some rate,
                    reason = None,
                    breakdown = Some
                      \<lparr> bd_annual_fee = annual_fee c,
                        effective_fee = fee,
                        fee_waived = waived,
                        total_rewards = rewards,
                        category_rewards = cat_rewards,
                        milestone_value = milestones,
                        achieved_milestones = achieved,
                        lounge_value = lounge,
                        welcome_value = welcome,
                        gross_benefits = gross,
                        total_annual_spend = tas \<rparr>,
                    why_recommended =
                      Some (if reasons \<noteq> [] then Joined reasons
                            else Basic_rewards_on_all_spends),
                    res_lounge_access = Some (lounge_access c),
                    res_description = Some (description c) \<rparr>)"

text \<open>
  The loop of \<^verbatim>\<open>rank_cards\<close>: the two \<^verbatim>\<open>continue\<close> filters, the valuation, and the
  append of an eligible result. An exception of the valuation ends the loop.
\<close>

fun rank_loop ::
  "int \<Rightarrow> spends \<Rightarrow> bool \<Rightarrow> bool \<Rightarrow> bool \<Rightarrow> card list \<Rightarrow> analysis list
     \<Rightarrow> py_error + analysis list" where
  "rank_loop monthly_salary monthly_spends needs_lounge lifetime_free_only is_first_year
     [] results = Inr results"
| "rank_loop monthly_salary monthly_spends needs_lounge lifetime_free_only is_first_year
     (c # cards) results =
     (if lifetime_free_only \<and> annual_fee c > 0 then
        rank_loop monthly_salary monthly_spends needs_lounge lifetime_free_only is_first_year
          cards results
      else if needs_lounge \<and> lounge_visits_per_quarter c = 0 then
        rank_loop monthly_salary monthly_spends needs_lounge lifetime_free_only is_first_year
          cards results
      else
        (case calculate_net_value c monthly_salary monthly_spends needs_lounge is_first_year of
           Inl e \<Rightarrow> Inl e
         | Inr a \<Rightarrow>
             if is_eligible a then
               rank_loop monthly_salary monthly_spends needs_lounge lifetime_free_only
                 is_first_year cards (results @ [a])
             else
               rank_loop monthly_salary monthly_spends needs_lounge lifetime_free_only
                 is_first_year cards results))"

definition rank_cards ::
  "card list \<Rightarrow> int \<Rightarrow> spends \<Rightarrow> bool \<Rightarrow> bool \<Rightarrow> bool \<Rightarrow> py_error + analysis list" where
  "rank_cards cards monthly_salary monthly_spends needs_lounge lifetime_free_only is_first_year =
     (case rank_loop monthly_salary monthly_spends needs_lounge lifetime_free_only
             is_first_year cards [] of
        Inl e \<Rightarrow> Inl e
      | Inr results \<Rightarrow> Inr (py_sort_reverse net_value results))"

subsection \<open>Catalog entries and a user profile\<close>

text \<open>
  Four records of \<^verbatim>\<open>CREDIT_CARDS\<close>, as \<^verbatim>\<open>src/data/credit_cards.py\<close> gives them, the
  monthly spends of the first example scenario of the specification, and those of its
  fourth one, where nothing is spent. They are the concrete inputs of the theorems below.
\<close>

definition HDFC_Infinia :: card where
  "HDFC_Infinia =
     \<lparr> card_name = ''HDFC Infinia'', bank = ''HDFC'', annual_fee = 12500,
       fee_waiver_threshold = 1000000, min_salary_req = 300000, base_reward_rate = 0.033,
       category_multipliers =
         map_of [(''travel'', 0.05), (''dining'', 0.033), (''online'', 0.033),
                 (''utilities'', 0.033)],
       lounge_access = ''Unlimited domestic & international'',
       lounge_visits_per_quarter = 999,
       milestone_benefits = [(800000, 10000), (1500000, 25000)],
       fuel_surcharge_waiver = True, card_type = ''Super Premium'',
       joining_fee = 12500, welcome_benefit = 12500,
       description = ''India'' @ [CHR 0x27]
         @ ''s most premium card with unmatched rewards and luxury benefits'' \<rparr>"

definition SBI_SimplyCLICK :: card where
  "SBI_SimplyCLICK =
     \<lparr> card_name = ''SBI SimplyCLICK'', bank = ''SBI'', annual_fee = 499,
       fee_waiver_threshold = 100000, min_salary_req = 25000, base_reward_rate = 0.0125,
       category_multipliers =
         map_of [(''travel'', 0.0125), (''dining'', 0.0125), (''online'', 0.025),
                 (''utilities'', 0.0125)],
       lounge_access = ''None'', lounge_visits_per_quarter = 0,
       milestone_benefits = [(100000, 2000), (200000, 2000)],
       fuel_surcharge_waiver = True, card_type = ''Entry Level'',
       joining_fee = 499, welcome_benefit = 500,
       description = ''Perfect entry-level card for online shopping enthusiasts'' \<rparr>"

definition Axis_Flipkart :: card where
  "Axis_Flipkart =
     \<lparr> card_name = ''Axis Flipkart'', bank = ''Axis'', annual_fee = 500,
       fee_waiver_threshold = 0, min_salary_req = 15000, base_reward_rate = 0.015,
       category_multipliers =
         map_of [(''travel'', 0.015), (''dining'', 0.015), (''online'', 0.05),
                 (''utilities'', 0.015)],
       lounge_access = ''4 per year (domestic)'', lounge_visits_per_quarter = 1,
       milestone_benefits = [],
       fuel_surcharge_waiver = True, card_type = ''Lifetime Free'',
       joining_fee = 0, welcome_benefit = 0,
       description = ''Lifetime free card with excellent Flipkart rewards'' \<rparr>"

definition IndusInd_Tiger :: card where
  "IndusInd_Tiger =
     \<lparr> card_name = ''IndusInd Tiger'', bank = ''IndusInd'', annual_fee = 0,
       fee_waiver_threshold = 0, min_salary_req = 20000, base_reward_rate = 0.0175,
       category_multipliers =
         map_of [(''travel'', 0.0175), (''dining'', 0.0175), (''online'', 0.035),
                 (''utilities'', 0.0175)],
       lounge_access = ''2 per quarter (domestic)'', lounge_visits_per_quarter = 2,
       milestone_benefits = [(50000, 500), (100000, 1000)],
       fuel_surcharge_waiver = True, card_type = ''Lifetime Free'',
       joining_fee = 0, welcome_benefit = 0,
       description = ''Great lifetime free card with lounge access and weekend rewards'' \<rparr>"

definition scenario_spends :: spends where
  "scenario_spends =
     [(''general'', 15000), (''travel'', 5000), (''dining'', 5000), (''online'', 10000),
      (''utilities'', 5000)]"

definition zero_spends :: spends where
  "zero_spends =
     [(''general'', 0), (''travel'', 0), (''dining'', 0), (''online'', 0), (''utilities'', 0)]"

definition example_cards :: "card list" where
  "example_cards = [SBI_SimplyCLICK, Axis_Flipkart, IndusInd_Tiger, HDFC_Infinia]"

section \<open>Properties\<close>

subsection \<open>The loops and the two results of the valuation\<close>

lemma calculate_net_value_ineligible:
  "monthly_salary < min_salary_req c \<Longrightarrow>
   calculate_net_value c monthly_salary monthly_spends needs_lounge is_first_year
     = Inr (ineligible_result c)"
  by (simp add: calculate_net_value_def check_eligibility_def)

lemma calculate_net_value_eligible:
  fixes c monthly_salary monthly_spends needs_lounge is_first_year
  defines "annual \<equiv> calculate_annual_spend monthly_spends"
  defines "tas \<equiv> calculate_total_spend annual"
  defines "fee \<equiv> calculate_effective_fee c tas"
  defines "waived \<equiv> (fee = 0 \<and> annual_fee c > 0)"
  defines "rewards \<equiv> fst (calculate_base_rewards c annual)"
  defines "cat_rewards \<equiv> snd (calculate_base_rewards c annual)"
  defines "milestones \<equiv> fst (calculate_milestone_benefits c tas)"
  defines "achieved \<equiv> snd (calculate_milestone_benefits c tas)"
  defines "lounge \<equiv> calculate_lounge_value c needs_lounge"
  defines "welcome \<equiv> (if is_first_year then welcome_benefit c else 0)"
  defines "gross \<equiv> rewards + milestones + lounge + of_int welcome"
  defines "reasons \<equiv> recommendation_reasons c cat_rewards waived achieved lounge"
  assumes "min_salary_req c \<le> monthly_salary"
  shows "calculate_net_value c monthly_salary monthly_spends needs_lounge is_first_year =
     Inr \<lparr> res_card_name = card_name c,
           res_bank = bank c,
           res_card_type = Some (card_type c),
           is_eligible = True,
           net_value = gross - of_int fee,
           effective_reward_rate = Some (if tas > 0 then rewards / of_int tas * 100 else 0),
           reason = None,
           breakdown = Some
             \<lparr> bd_annual_fee = annual_fee c,
               effective_fee = fee,
               fee_waived = waived,
               total_rewards = rewards,
               category_rewards = cat_rewards,
               milestone_value = milestones,
               achieved_milestones = achieved,
               lounge_value = lounge,
               welcome_value = welcome,
               gross_benefits = gross,
               total_annual_spend = tas \<rparr>,
           why_recommended =
             Some (if reasons \<noteq> [] then Joined reasons else Basic_rewards_on_all_spends),
           res_lounge_access = Some (lounge_access c),
           res_description = Some (description c) \<rparr>"
  using assms(13) unfolding assms(1-12)
  by (simp add: calculate_net_value_def check_eligibility_def py_truediv_def Let_def
        case_prod_beta)


lemma milestone_loop_eq:
  "milestone_loop pv spend ms tot ach =
     (tot + sum_list (map (\<lambda>(t, p). of_int p * pv) (filter (\<lambda>(t, p). t \<le> spend) ms)),
      ach @ map (\<lambda>(t, p). Achievement t p (of_int p * pv)) (filter (\<lambda>(t, p). t \<le> spend) ms))"
  by (induction ms arbitrary: tot ach) (auto simp add: Let_def)

lemma base_rewards_loop_fst:
  "fst (base_rewards_loop c sp tot cr) =
     tot + sum_list (map (\<lambda>(k, a). of_int a *
             (if k = ''general'' then base_reward_rate c
              else case category_multipliers c k of
                     Some m \<Rightarrow> m | None \<Rightarrow> base_reward_rate c)) sp)"
  by (induction sp arbitrary: tot cr) (auto simp add: Let_def dict_get_def split: option.splits)

lemma update_fresh: "k \<notin> fst ` set al \<Longrightarrow> AList.update k v al = al @ [(k, v)]"
  by (induction al) auto

lemma base_rewards_loop_snd:
  "distinct (map fst sp) \<Longrightarrow> fst ` set sp \<inter> fst ` set cr = {} \<Longrightarrow>
   snd (base_rewards_loop c sp tot cr) =
     cr @ map (\<lambda>(k, a). (k, of_int a *
             (if k = ''general'' then base_reward_rate c
              else case category_multipliers c k of
                     Some m \<Rightarrow> m | None \<Rightarrow> base_reward_rate c))) sp"
proof (induction sp arbitrary: tot cr)
  case Nil
  then show ?case by simp
next
  case (Cons x sp)
  obtain k a where x: "x = (k, a)" by (cases x)
  from Cons.prems x have fresh: "k \<notin> fst ` set cr" by auto
  from Cons.prems x have d: "distinct (map fst sp)" and nk: "k \<notin> fst ` set sp" by auto
  from Cons.prems x nk have disj: "fst ` set sp \<inter> fst ` set (cr @ [(k, v)]) = {}" for v
    by auto
  show ?case
    using Cons.IH [OF d disj] fresh
    by (simp add: x Let_def update_fresh dict_get_def split: option.splits)
qed

lemma map_annual_spend:
  "map (\<lambda>(k, a). F k a) (calculate_annual_spend ms) = map (\<lambda>(k, a). F k (a * 12)) ms"
  by (induction ms) (auto simp add: calculate_annual_spend_def)

lemma annual_spend_zero:
  assumes "\<forall>(k, a) \<in> set ms. 0 \<le> a"
    and "calculate_total_spend (calculate_annual_spend ms) = 0"
  shows "\<forall>(k, a) \<in> set (calculate_annual_spend ms). a = 0"
proof -
  have nonneg: "0 \<le> x" if "x \<in> set (map snd (calculate_annual_spend ms))" for x
    using assms(1) that by (auto simp add: calculate_annual_spend_def)
  from assms(2) have "sum_list (map snd (calculate_annual_spend ms)) = 0"
    by (simp add: calculate_total_spend_def)
  then have "\<forall>x \<in> set (map snd (calculate_annual_spend ms)). x = 0"
    using sum_list_nonneg_eq_0_iff [of "map snd (calculate_annual_spend ms)"] nonneg
    by blast
  then show ?thesis by auto
qed

lemma base_rewards_zero:
  assumes "\<forall>(k, a) \<in> set sp. a = 0"
  shows "fst (calculate_base_rewards c sp) = 0"
proof -
  have "sum_list (map (\<lambda>(k, a). real_of_int a * f k) sp) = 0" for f
    using assms by (induction sp) auto
  then show ?thesis
    by (simp add: calculate_base_rewards_def base_rewards_loop_fst)
qed

lemma milestones_zero:
  assumes "\<forall>(t, p) \<in> set (milestone_benefits c). 0 < t"
  shows "fst (calculate_milestone_benefits c 0) = 0"
proof -
  have "filter (\<lambda>(t, p). t \<le> 0) (milestone_benefits c) = []"
    using assms by (auto simp add: filter_empty_conv)
  then show ?thesis
    by (simp add: calculate_milestone_benefits_def milestone_loop_eq)
qed

subsection \<open>The sort and the ranking loop\<close>

lemma py_sort_reverse_sorted:
  "sorted_wrt (\<lambda>a b. key a \<ge> key b) (py_sort_reverse key xs)"
proof -
  have "sorted (map key (sort_key key (rev xs)))"
    by (rule sorted_sort_key)
  then have "sorted_wrt (\<lambda>a b. key a \<le> key b) (sort_key key (rev xs))"
    by (simp add: sorted_map)
  then show ?thesis
    by (simp add: py_sort_reverse_def sorted_wrt_rev)
qed

lemma py_sort_reverse_stable:
  "filter (\<lambda>y. key y = k) (py_sort_reverse key xs) = filter (\<lambda>y. key y = k) xs"
proof -
  have "filter (\<lambda>y. key y = k) (py_sort_reverse key xs)
          = rev (filter (\<lambda>y. key y = k) (sort_key key (rev xs)))"
    by (simp add: py_sort_reverse_def rev_filter)
  also have "\<dots> = rev (filter (\<lambda>y. key y = k) (rev xs))"
    by (simp only: sort_key_stable)
  also have "\<dots> = filter (\<lambda>y. key y = k) xs"
    by (simp add: rev_filter)
  finally show ?thesis .
qed

lemma py_sort_reverse_mset: "mset (py_sort_reverse key xs) = mset xs"
  by (simp add: py_sort_reverse_def)

lemma rank_loop_eq:
  fixes sal ms nl lfo fy
  defines "keep \<equiv> \<lambda>c. \<not> (lfo \<and> annual_fee c > 0)
                       \<and> \<not> (nl \<and> lounge_visits_per_quarter c = 0)
                       \<and> min_salary_req c \<le> sal"
  defines "calc \<equiv> \<lambda>c. calculate_net_value c sal ms nl fy"
  shows "\<exists>as. rank_loop sal ms nl lfo fy cards results = Inr (results @ as)
               \<and> map Inr as = map calc (filter keep cards)
               \<and> (\<forall>r \<in> set as. is_eligible r)"
proof (induction cards arbitrary: results)
  case Nil
  show ?case by simp
next
  case (Cons c cards)
  show ?case
  proof (cases "keep c")
    case False
    then have "rank_loop sal ms nl lfo fy (c # cards) results
                 = rank_loop sal ms nl lfo fy cards results"
      by (auto simp add: keep_def calculate_net_value_ineligible ineligible_result_def)
    with Cons.IH [of results] False show ?thesis by simp
  next
    case True
    then have e: "min_salary_req c \<le> sal"
      by (simp add: keep_def)
    have "\<exists>r. calculate_net_value c sal ms nl fy = Inr r \<and> is_eligible r"
      by (simp add: calculate_net_value_eligible [OF e])
    then obtain r where r: "calculate_net_value c sal ms nl fy = Inr r" "is_eligible r"
      by blast
    from True r have step: "rank_loop sal ms nl lfo fy (c # cards) results
                 = rank_loop sal ms nl lfo fy cards (results @ [r])"
      by (auto simp add: keep_def)
    from Cons.IH [of "results @ [r]"] obtain as where
      as: "rank_loop sal ms nl lfo fy cards (results @ [r]) = Inr ((results @ [r]) @ as)"
          "map Inr as = map calc (filter keep cards)" "\<forall>r \<in> set as. is_eligible r"
      by blast
    have "rank_loop sal ms nl lfo fy (c # cards) results = Inr (results @ (r # as))"
      using step as(1) by simp
    moreover have "map Inr (r # as) = map calc (filter keep (c # cards))"
      using True r(1) as(2) by (simp add: calc_def)
    moreover have "\<forall>x \<in> set (r # as). is_eligible x"
      using r(2) as(3) by simp
    ultimately show ?thesis by blast
  qed
qed

lemma rank_cards_eq:
  fixes sal ms nl lfo fy
  defines "keep \<equiv> \<lambda>c. \<not> (lfo \<and> annual_fee c > 0)
                       \<and> \<not> (nl \<and> lounge_visits_per_quarter c = 0)
                       \<and> min_salary_req c \<le> sal"
  defines "calc \<equiv> \<lambda>c. calculate_net_value c sal ms nl fy"
  shows "\<exists>as. rank_cards cards sal ms nl lfo fy = Inr (py_sort_reverse net_value as)
               \<and> map Inr as = map calc (filter keep cards)
               \<and> (\<forall>r \<in> set as. is_eligible r)"
  using rank_loop_eq [of sal ms nl lfo fy cards "[]"]
  by (auto simp add: rank_cards_def keep_def calc_def)

subsection \<open>The first example scenario, evaluated\<close>

text \<open>
  Monthly salary 75000 and the spends of \<open>scenario_spends\<close>, in the first year and
  without the lounge preference, on the record of SBI SimplyCLICK.
\<close>

lemma min_salary_SBI: "min_salary_req SBI_SimplyCLICK \<le> 75000"
  by (simp add: SBI_SimplyCLICK_def)

lemma scenario_total: "calculate_total_spend (calculate_annual_spend scenario_spends) = 480000"
  by (simp add: calculate_total_spend_def calculate_annual_spend_def scenario_spends_def)

lemma SBI_rewards:
  "calculate_base_rewards SBI_SimplyCLICK (calculate_annual_spend scenario_spends) =
     (7500, [(''general'', 2250), (''travel'', 750), (''dining'', 750), (''online'', 3000),
             (''utilities'', 750)])"
  by (simp add: calculate_base_rewards_def calculate_annual_spend_def scenario_spends_def
        SBI_SimplyCLICK_def dict_get_def Let_def)

lemma SBI_milestones:
  "calculate_milestone_benefits SBI_SimplyCLICK 480000 =
     (1000, [Achievement 100000 2000 500, Achievement 200000 2000 500])"
  by (simp add: calculate_milestone_benefits_def SBI_SimplyCLICK_def dict_get_def
        POINT_VALUATION_def Let_def)

lemma SBI_fee: "calculate_effective_fee SBI_SimplyCLICK 480000 = 0"
  by (simp add: calculate_effective_fee_def SBI_SimplyCLICK_def)

lemma SBI_lounge: "calculate_lounge_value SBI_SimplyCLICK False = 0"
  by (simp add: calculate_lounge_value_def)

lemma SBI_welcome: "welcome_benefit SBI_SimplyCLICK = 500"
  by (simp add: SBI_SimplyCLICK_def)

lemma distinct_scenario_spends: "distinct (map fst scenario_spends)"
  by (simp add: scenario_spends_def)

lemma zero_total: "calculate_total_spend (calculate_annual_spend zero_spends) = 0"
  by (simp add: calculate_total_spend_def calculate_annual_spend_def zero_spends_def)

lemmas card_defs = SBI_SimplyCLICK_def Axis_Flipkart_def IndusInd_Tiger_def HDFC_Infinia_def

lemmas calc_defs = calculate_net_value_def check_eligibility_def calculate_annual_spend_def
  calculate_total_spend_def calculate_effective_fee_def calculate_base_rewards_def
  calculate_milestone_benefits_def calculate_lounge_value_def recommendation_reasons_def
  ineligible_result_def py_truediv_def dict_get_def POINT_VALUATION_def Let_def
  scenario_spends_def zero_spends_def

lemma ranking_example:
  "map_sum id (map (\<lambda>r. (res_card_name r, net_value r)))
     (rank_cards example_cards 75000 scenario_spends False False True)
   = Inr [(''Axis Flipkart'', 11400), (''IndusInd Tiger'', 11250), (''SBI SimplyCLICK'', 9000)]"
  by (simp add: example_cards_def rank_cards_def py_sort_reverse_def calc_defs card_defs)

lemma filtered_ranking_example:
  "map_sum id (map res_card_name)
     (rank_cards example_cards 75000 scenario_spends True True True)
   = Inr [''IndusInd Tiger'']"
  by (simp add: example_cards_def rank_cards_def py_sort_reverse_def calc_defs card_defs)

lemma tie_ranking_example:
  "map_sum id (map (\<lambda>r. (res_card_name r, net_value r)))
     (rank_cards [SBI_SimplyCLICK, Axis_Flipkart, IndusInd_Tiger] 75000 zero_spends
        False False False)
   = Inr [(''Axis Flipkart'', 0), (''IndusInd Tiger'', 0), (''SBI SimplyCLICK'', - 499)]"
  by (simp add: rank_cards_def py_sort_reverse_def calc_defs card_defs)

lemma tie_ranking_example_swapped:
  "map_sum id (map (\<lambda>r. (res_card_name r, net_value r)))
     (rank_cards [SBI_SimplyCLICK, IndusInd_Tiger, Axis_Flipkart] 75000 zero_spends
        False False False)
   = Inr [(''IndusInd Tiger'', 0), (''Axis Flipkart'', 0), (''SBI SimplyCLICK'', - 499)]"
  by (simp add: rank_cards_def py_sort_reverse_def calc_defs card_defs)

lemma example_cards_valid:
  "\<forall>c \<in> set example_cards. 0 \<le> annual_fee c \<and> 0 \<le> lounge_visits_per_quarter c"
  by (simp add: example_cards_def card_defs)

subsection \<open>The effective fee\<close>

text \<open>
  C9. For every card with \<open>fee_waiver_threshold = 0\<close> and every annual spend, zero
  included, the effective fee is 0, whatever the stated annual fee of the card.
\<close>

theorem effective_fee_zero_threshold:
  "fee_waiver_threshold c = 0 \<Longrightarrow> calculate_effective_fee c annual_spend = 0"
  by (simp add: calculate_effective_fee_def)

theorem effective_fee_zero_threshold_witness:
  "fee_waiver_threshold Axis_Flipkart = 0 \<and> annual_fee Axis_Flipkart = 500
   \<and> calculate_effective_fee Axis_Flipkart 0 = 0"
proof -
  have h: "fee_waiver_threshold Axis_Flipkart = 0"
    by (simp add: Axis_Flipkart_def)
  have "calculate_effective_fee Axis_Flipkart 0 = 0"
    by (rule effective_fee_zero_threshold [OF h])
  moreover have "annual_fee Axis_Flipkart = 500"
    by (simp add: Axis_Flipkart_def)
  ultimately show ?thesis using h by simp
qed

subsection \<open>The fee-waived flag\<close>

text \<open>
  C1, as the code has it. For every card and every eligible profile, \<open>fee_waived\<close> is
  true exactly when the stated annual fee is positive and the effective fee is 0, that
  is, when \<open>annual_fee > 0\<close> and either \<open>fee_waiver_threshold = 0\<close> or the total
  annual spend reaches the threshold.
\<close>

theorem fee_waived_iff:
  assumes "min_salary_req c \<le> monthly_salary"
  shows "\<exists>r b. calculate_net_value c monthly_salary monthly_spends needs_lounge is_first_year
                 = Inr r
     \<and> breakdown r = Some b
     \<and> total_annual_spend b = calculate_total_spend (calculate_annual_spend monthly_spends)
     \<and> (fee_waived b \<longleftrightarrow>
          annual_fee c > 0
          \<and> (fee_waiver_threshold c = 0 \<or> total_annual_spend b \<ge> fee_waiver_threshold c))"
  by (auto simp add: calculate_net_value_eligible [OF assms] calculate_effective_fee_def)

theorem fee_waived_iff_witness:
  "min_salary_req SBI_SimplyCLICK \<le> 75000
   \<and> (\<exists>r b. calculate_net_value SBI_SimplyCLICK 75000 scenario_spends False True = Inr r
     \<and> breakdown r = Some b
     \<and> total_annual_spend b = calculate_total_spend (calculate_annual_spend scenario_spends)
     \<and> (fee_waived b \<longleftrightarrow>
          annual_fee SBI_SimplyCLICK > 0
          \<and> (fee_waiver_threshold SBI_SimplyCLICK = 0
             \<or> total_annual_spend b \<ge> fee_waiver_threshold SBI_SimplyCLICK)))"
  using min_salary_SBI fee_waived_iff [OF min_salary_SBI]
  by (rule conjI)

text \<open>
  C1, as stated, requires \<open>fee_waiver_threshold > 0\<close> for the flag to be true. The
  catalog record of Axis Flipkart has threshold 0 and a stated fee of 500, and its
  breakdown reports \<open>fee_waived = True\<close>.
\<close>

theorem fee_waived_zero_threshold_counterexample:
  "map_sum id (map_option fee_waived \<circ> breakdown)
     (calculate_net_value Axis_Flipkart 75000 scenario_spends False False) = Inr (Some True)
   \<and> \<not> 0 < fee_waiver_threshold Axis_Flipkart"
proof -
  have elig: "min_salary_req Axis_Flipkart \<le> 75000"
    by (simp add: Axis_Flipkart_def)
  have thr: "fee_waiver_threshold Axis_Flipkart = 0"
    by (simp add: Axis_Flipkart_def)
  have fee: "annual_fee Axis_Flipkart = 500"
    by (simp add: Axis_Flipkart_def)
  show ?thesis
    by (simp add: calculate_net_value_eligible [OF elig] calculate_effective_fee_def thr fee)
qed

subsection \<open>The net value\<close>

text \<open>
  C2. For every card and every eligible profile, the net value is
  \<open>total_rewards + milestone_value + lounge_value + welcome_value - effective_fee\<close>,
  where the welcome value is the card's \<open>welcome_benefit\<close> in the first year and 0
  otherwise, added as it is, with no conversion by a point value.
\<close>

theorem net_value_formula:
  assumes "min_salary_req c \<le> monthly_salary"
  shows "\<exists>r b. calculate_net_value c monthly_salary monthly_spends needs_lounge is_first_year
                 = Inr r
     \<and> breakdown r = Some b
     \<and> net_value r = total_rewards b + milestone_value b + lounge_value b
                      + of_int (welcome_value b) - of_int (effective_fee b)
     \<and> welcome_value b = (if is_first_year then welcome_benefit c else 0)
     \<and> total_rewards b = fst (calculate_base_rewards c (calculate_annual_spend monthly_spends))
     \<and> milestone_value b = fst (calculate_milestone_benefits c
          (calculate_total_spend (calculate_annual_spend monthly_spends)))
     \<and> lounge_value b = calculate_lounge_value c needs_lounge
     \<and> effective_fee b = calculate_effective_fee c
          (calculate_total_spend (calculate_annual_spend monthly_spends))"
  by (simp add: calculate_net_value_eligible [OF assms])

theorem net_value_formula_witness:
  "min_salary_req SBI_SimplyCLICK \<le> 75000
   \<and> (\<exists>r b. calculate_net_value SBI_SimplyCLICK 75000 scenario_spends False True = Inr r
        \<and> breakdown r = Some b
        \<and> total_rewards b = 7500 \<and> milestone_value b = 1000 \<and> lounge_value b = 0
        \<and> welcome_value b = 500 \<and> effective_fee b = 0 \<and> net_value r = 9000)"
proof -
  from net_value_formula [OF min_salary_SBI, of scenario_spends False True]
  obtain r b where
    "calculate_net_value SBI_SimplyCLICK 75000 scenario_spends False True = Inr r"
    "breakdown r = Some b"
    "net_value r = total_rewards b + milestone_value b + lounge_value b
                   + of_int (welcome_value b) - of_int (effective_fee b)"
    "welcome_value b = 500" "total_rewards b = 7500" "milestone_value b = 1000"
    "lounge_value b = 0" "effective_fee b = 0"
    by (auto simp add: scenario_total SBI_rewards SBI_milestones SBI_fee SBI_lounge
          SBI_welcome)
  then show ?thesis
    using min_salary_SBI by auto
qed

subsection \<open>Category rewards\<close>

text \<open>
  C5. For every card and every spend dictionary, each annual spend is the monthly
  amount times 12. The reward of the category \<open>general\<close> is its annual spend times
  \<open>base_reward_rate\<close>; the reward of any other category is its annual spend times the
  entry of \<open>category_multipliers\<close> for that category when there is one and times
  \<open>base_reward_rate\<close> otherwise. The total rewards are the sum of the rewards of all
  categories of the dictionary: for a dictionary over the five categories, the sum of
  the five.
\<close>

theorem category_rewards_rates:
  fixes c monthly_spends
  defines "rate \<equiv> \<lambda>k. if k = ''general'' then base_reward_rate c
                       else (case category_multipliers c k of
                               Some m \<Rightarrow> m | None \<Rightarrow> base_reward_rate c)"
  assumes "distinct (map fst monthly_spends)"
  shows "calculate_annual_spend monthly_spends = map (\<lambda>(k, a). (k, a * 12)) monthly_spends
     \<and> snd (calculate_base_rewards c (calculate_annual_spend monthly_spends))
         = map (\<lambda>(k, a). (k, of_int (a * 12) * rate k)) monthly_spends
     \<and> fst (calculate_base_rewards c (calculate_annual_spend monthly_spends))
         = sum_list (map (\<lambda>(k, a). of_int (a * 12) * rate k) monthly_spends)
     \<and> (set monthly_spends = {(''general'', gen), (''travel'', trv), (''dining'', din),
                               (''online'', onl), (''utilities'', utl)} \<longrightarrow>
          fst (calculate_base_rewards c (calculate_annual_spend monthly_spends))
            = of_int (gen * 12) * base_reward_rate c + of_int (trv * 12) * rate ''travel''
              + of_int (din * 12) * rate ''dining'' + of_int (onl * 12) * rate ''online''
              + of_int (utl * 12) * rate ''utilities'')"
proof -
  let ?annual = "calculate_annual_spend monthly_spends"
  let ?f = "\<lambda>(k, a). of_int (a * 12) * rate k"
  have keys: "map fst ?annual = map fst monthly_spends"
    by (simp add: calculate_annual_spend_def case_prod_beta)
  have annual: "?annual = map (\<lambda>(k, a). (k, a * 12)) monthly_spends"
    by (simp add: calculate_annual_spend_def)
  have d: "distinct (map fst ?annual)"
    using assms(2) keys by simp
  have cr: "snd (calculate_base_rewards c ?annual)
         = map (\<lambda>(k, a). (k, of_int (a * 12) * rate k)) monthly_spends"
    using base_rewards_loop_snd [OF d, of "[]" c 0]
    by (simp add: calculate_base_rewards_def rate_def map_annual_spend)
  have tot: "fst (calculate_base_rewards c ?annual) = sum_list (map ?f monthly_spends)"
    by (simp add: calculate_base_rewards_def base_rewards_loop_fst rate_def
          map_annual_spend)
  have five: "fst (calculate_base_rewards c ?annual)
            = of_int (gen * 12) * base_reward_rate c + of_int (trv * 12) * rate ''travel''
              + of_int (din * 12) * rate ''dining'' + of_int (onl * 12) * rate ''online''
              + of_int (utl * 12) * rate ''utilities''"
    if s: "set monthly_spends = {(''general'', gen), (''travel'', trv), (''dining'', din),
                               (''online'', onl), (''utilities'', utl)}"
  proof -
    from assms(2) have "distinct monthly_spends"
      by (rule distinct_map [THEN iffD1, THEN conjunct1])
    then have "sum_list (map ?f monthly_spends) = sum ?f (set monthly_spends)"
      by (rule sum_list_distinct_conv_sum_set)
    also have "\<dots> = of_int (gen * 12) * base_reward_rate c + of_int (trv * 12) * rate ''travel''
              + of_int (din * 12) * rate ''dining'' + of_int (onl * 12) * rate ''online''
              + of_int (utl * 12) * rate ''utilities''"
      by (simp add: s rate_def)
    finally show ?thesis
      using tot by simp
  qed
  from annual cr tot five show ?thesis
    by blast
qed

theorem category_rewards_rates_witness:
  "distinct (map fst scenario_spends)
   \<and> set scenario_spends = {(''general'', 15000), (''travel'', 5000), (''dining'', 5000),
                             (''online'', 10000), (''utilities'', 5000)}
   \<and> calculate_annual_spend scenario_spends =
        [(''general'', 180000), (''travel'', 60000), (''dining'', 60000), (''online'', 120000),
         (''utilities'', 60000)]
   \<and> snd (calculate_base_rewards SBI_SimplyCLICK (calculate_annual_spend scenario_spends)) =
        [(''general'', 2250), (''travel'', 750), (''dining'', 750), (''online'', 3000),
         (''utilities'', 750)]
   \<and> fst (calculate_base_rewards SBI_SimplyCLICK (calculate_annual_spend scenario_spends))
        = 7500"
proof -
  have s: "set scenario_spends = {(''general'', 15000), (''travel'', 5000), (''dining'', 5000),
                             (''online'', 10000), (''utilities'', 5000)}"
    by (simp add: scenario_spends_def)
  note inst = category_rewards_rates [OF distinct_scenario_spends,
      where c = SBI_SimplyCLICK and gen = 15000 and trv = 5000 and din = 5000
        and onl = 10000 and utl = 5000]
  have "calculate_annual_spend scenario_spends =
        [(''general'', 180000), (''travel'', 60000), (''dining'', 60000), (''online'', 120000),
         (''utilities'', 60000)]"
    by (subst inst [THEN conjunct1]) (simp add: scenario_spends_def)
  moreover
  have "snd (calculate_base_rewards SBI_SimplyCLICK (calculate_annual_spend scenario_spends)) =
        [(''general'', 2250), (''travel'', 750), (''dining'', 750), (''online'', 3000),
         (''utilities'', 750)]"
    by (subst inst [THEN conjunct2, THEN conjunct1])
      (simp add: scenario_spends_def SBI_SimplyCLICK_def)
  moreover
  have "fst (calculate_base_rewards SBI_SimplyCLICK (calculate_annual_spend scenario_spends))
        = 7500"
    by (subst inst [THEN conjunct2, THEN conjunct2, THEN conjunct2, THEN mp, OF s])
      (simp add: SBI_SimplyCLICK_def)
  ultimately show ?thesis
    using s distinct_scenario_spends by simp
qed

subsection \<open>Milestones\<close>

text \<open>
  C6. For every card and every total annual spend, the milestone value is the sum, over
  all thresholds of \<open>milestone_benefits\<close> that the spend reaches, of the points times
  the point value of the card's bank (0.25 for a bank that the table does not list).
  Every threshold reached contributes, and one achievement is appended for each of them,
  in the order of the dictionary.
\<close>

theorem milestone_value_sum:
  fixes c annual_spend
  defines "pv \<equiv> (case POINT_VALUATION (bank c) of Some v \<Rightarrow> v | None \<Rightarrow> 0.25)"
  defines "qualifying \<equiv> filter (\<lambda>(t, p). t \<le> annual_spend) (milestone_benefits c)"
  shows "calculate_milestone_benefits c annual_spend =
           (sum_list (map (\<lambda>(t, p). of_int p * pv) qualifying),
            map (\<lambda>(t, p). Achievement t p (of_int p * pv)) qualifying)
         \<and> length (snd (calculate_milestone_benefits c annual_spend)) = length qualifying"
  by (simp add: pv_def qualifying_def calculate_milestone_benefits_def milestone_loop_eq
        dict_get_def Let_def cong: option.case_cong)

theorem milestone_value_sum_witness:
  "calculate_milestone_benefits HDFC_Infinia 1500000 =
     (17500, [Achievement 800000 10000 5000, Achievement 1500000 25000 12500])
   \<and> calculate_milestone_benefits HDFC_Infinia 1000000 =
     (5000, [Achievement 800000 10000 5000])"
proof -
  have "calculate_milestone_benefits HDFC_Infinia 1500000 =
     (17500, [Achievement 800000 10000 5000, Achievement 1500000 25000 12500])"
    by (subst milestone_value_sum [THEN conjunct1])
      (simp add: HDFC_Infinia_def POINT_VALUATION_def)
  moreover have "calculate_milestone_benefits HDFC_Infinia 1000000 =
     (5000, [Achievement 800000 10000 5000])"
    by (subst milestone_value_sum [THEN conjunct1])
      (simp add: HDFC_Infinia_def POINT_VALUATION_def)
  ultimately show ?thesis by (rule conjI)
qed

subsection \<open>Eligibility\<close>

text \<open>
  C7. For a monthly salary below \<open>min_salary_req\<close> the valuation returns a result
  that is not eligible, with net value 0, a reason that cites the required minimum
  salary and an empty breakdown; the result does not depend on the spends or on the
  preferences. For a monthly salary of at least \<open>min_salary_req\<close> it returns an
  eligible result whose breakdown has all eleven fields.
\<close>

theorem eligibility_results:
  "(monthly_salary < min_salary_req c \<longrightarrow>
      calculate_net_value c monthly_salary monthly_spends needs_lounge is_first_year =
        Inr \<lparr> res_card_name = card_name c, res_bank = bank c, res_card_type = None,
              is_eligible = False, net_value = 0, effective_reward_rate = None,
              reason = Some (''Requires minimum salary of '' @ rupee
                             @ fmt_int_commas (min_salary_req c) @ ''/month''),
              breakdown = None, why_recommended = None, res_lounge_access = None,
              res_description = None \<rparr>)
   \<and> (min_salary_req c \<le> monthly_salary \<longrightarrow>
      (\<exists>r tas. calculate_net_value c monthly_salary monthly_spends needs_lounge is_first_year
                 = Inr r
         \<and> is_eligible r
         \<and> tas = calculate_total_spend (calculate_annual_spend monthly_spends)
         \<and> breakdown r = Some
             \<lparr> bd_annual_fee = annual_fee c,
               effective_fee = calculate_effective_fee c tas,
               fee_waived = (calculate_effective_fee c tas = 0 \<and> annual_fee c > 0),
               total_rewards =
                 fst (calculate_base_rewards c (calculate_annual_spend monthly_spends)),
               category_rewards =
                 snd (calculate_base_rewards c (calculate_annual_spend monthly_spends)),
               milestone_value = fst (calculate_milestone_benefits c tas),
               achieved_milestones = snd (calculate_milestone_benefits c tas),
               lounge_value = calculate_lounge_value c needs_lounge,
               welcome_value = (if is_first_year then welcome_benefit c else 0),
               gross_benefits =
                 fst (calculate_base_rewards c (calculate_annual_spend monthly_spends))
                 + fst (calculate_milestone_benefits c tas)
                 + calculate_lounge_value c needs_lounge
                 + of_int (if is_first_year then welcome_benefit c else 0),
               total_annual_spend = tas \<rparr>))"
proof (intro conjI impI)
  assume "monthly_salary < min_salary_req c"
  then show "calculate_net_value c monthly_salary monthly_spends needs_lounge is_first_year =
        Inr \<lparr> res_card_name = card_name c, res_bank = bank c, res_card_type = None,
              is_eligible = False, net_value = 0, effective_reward_rate = None,
              reason = Some (''Requires minimum salary of '' @ rupee
                             @ fmt_int_commas (min_salary_req c) @ ''/month''),
              breakdown = None, why_recommended = None, res_lounge_access = None,
              res_description = None \<rparr>"
    by (simp add: calculate_net_value_ineligible ineligible_result_def)
next
  assume e: "min_salary_req c \<le> monthly_salary"
  show "\<exists>r tas. calculate_net_value c monthly_salary monthly_spends needs_lounge is_first_year
                 = Inr r
         \<and> is_eligible r
         \<and> tas = calculate_total_spend (calculate_annual_spend monthly_spends)
         \<and> breakdown r = Some
             \<lparr> bd_annual_fee = annual_fee c,
               effective_fee = calculate_effective_fee c tas,
               fee_waived = (calculate_effective_fee c tas = 0 \<and> annual_fee c > 0),
               total_rewards =
                 fst (calculate_base_rewards c (calculate_annual_spend monthly_spends)),
               category_rewards =
                 snd (calculate_base_rewards c (calculate_annual_spend monthly_spends)),
               milestone_value = fst (calculate_milestone_benefits c tas),
               achieved_milestones = snd (calculate_milestone_benefits c tas),
               lounge_value = calculate_lounge_value c needs_lounge,
               welcome_value = (if is_first_year then welcome_benefit c else 0),
               gross_benefits =
                 fst (calculate_base_rewards c (calculate_annual_spend monthly_spends))
                 + fst (calculate_milestone_benefits c tas)
                 + calculate_lounge_value c needs_lounge
                 + of_int (if is_first_year then welcome_benefit c else 0),
               total_annual_spend = tas \<rparr>"
    by (simp add: calculate_net_value_eligible [OF e])
qed

theorem eligibility_results_witness:
  "75000 < min_salary_req HDFC_Infinia
   \<and> calculate_net_value HDFC_Infinia 75000 scenario_spends False True =
        Inr \<lparr> res_card_name = ''HDFC Infinia'', res_bank = ''HDFC'', res_card_type = None,
              is_eligible = False, net_value = 0, effective_reward_rate = None,
              reason = Some (''Requires minimum salary of '' @ rupee @ ''300,000/month''),
              breakdown = None, why_recommended = None, res_lounge_access = None,
              res_description = None \<rparr>
   \<and> min_salary_req SBI_SimplyCLICK \<le> 75000
   \<and> (\<exists>r. calculate_net_value SBI_SimplyCLICK 75000 scenario_spends False True = Inr r
        \<and> is_eligible r
        \<and> breakdown r = Some
             \<lparr> bd_annual_fee = 499, effective_fee = 0, fee_waived = True,
               total_rewards = 7500,
               category_rewards =
                 [(''general'', 2250), (''travel'', 750), (''dining'', 750), (''online'', 3000),
                  (''utilities'', 750)],
               milestone_value = 1000,
               achieved_milestones =
                 [Achievement 100000 2000 500, Achievement 200000 2000 500],
               lounge_value = 0, welcome_value = 500, gross_benefits = 9000,
               total_annual_spend = 480000 \<rparr>)"
proof -
  have h: "75000 < min_salary_req HDFC_Infinia"
    by (simp add: HDFC_Infinia_def)
  have f: "fmt_int_commas (min_salary_req HDFC_Infinia) = ''300,000''"
    by (simp add: HDFC_Infinia_def fmt_int_commas_def digits.simps)
  have n: "card_name HDFC_Infinia = ''HDFC Infinia''" "bank HDFC_Infinia = ''HDFC''"
    by (simp_all add: HDFC_Infinia_def)
  have fee: "annual_fee SBI_SimplyCLICK = 499"
    by (simp add: SBI_SimplyCLICK_def)
  from eligibility_results [of 75000 HDFC_Infinia scenario_spends False True] h
  have low: "calculate_net_value HDFC_Infinia 75000 scenario_spends False True =
        Inr \<lparr> res_card_name = ''HDFC Infinia'', res_bank = ''HDFC'', res_card_type = None,
              is_eligible = False, net_value = 0, effective_reward_rate = None,
              reason = Some (''Requires minimum salary of '' @ rupee @ ''300,000/month''),
              breakdown = None, why_recommended = None, res_lounge_access = None,
              res_description = None \<rparr>"
    by (simp add: f n)
  from eligibility_results [of 75000 SBI_SimplyCLICK scenario_spends False True]
    min_salary_SBI
  have high: "\<exists>r. calculate_net_value SBI_SimplyCLICK 75000 scenario_spends False True = Inr r
        \<and> is_eligible r
        \<and> breakdown r = Some
             \<lparr> bd_annual_fee = 499, effective_fee = 0, fee_waived = True,
               total_rewards = 7500,
               category_rewards =
                 [(''general'', 2250), (''travel'', 750), (''dining'', 750), (''online'', 3000),
                  (''utilities'', 750)],
               milestone_value = 1000,
               achieved_milestones =
                 [Achievement 100000 2000 500, Achievement 200000 2000 500],
               lounge_value = 0, welcome_value = 500, gross_benefits = 9000,
               total_annual_spend = 480000 \<rparr>"
    by (simp add: scenario_total SBI_rewards SBI_milestones SBI_fee SBI_lounge SBI_welcome
          fee)
  from h low min_salary_SBI high show ?thesis
    by (intro conjI)
qed

subsection \<open>The effective reward rate\<close>

text \<open>
  C8. The valuation never raises a division by zero: it returns a result for every
  input. For an eligible profile the effective reward rate is
  \<open>total_rewards / total_annual_spend * 100\<close> when the total annual spend is positive
  and 0 when it is 0. In the latter case, when no monthly spend is negative and every
  milestone threshold is positive, as the data model requires, the total rewards are 0
  and the net value is \<open>welcome_value + lounge_value - effective_fee\<close>.
\<close>

theorem reward_rate_never_raises:
  fixes c monthly_salary monthly_spends needs_lounge is_first_year
  defines "tas \<equiv> calculate_total_spend (calculate_annual_spend monthly_spends)"
  shows "\<exists>r. calculate_net_value c monthly_salary monthly_spends needs_lounge is_first_year
               = Inr r
     \<and> (min_salary_req c \<le> monthly_salary \<longrightarrow>
          (\<exists>b. breakdown r = Some b \<and> total_annual_spend b = tas
             \<and> (tas > 0 \<longrightarrow>
                  effective_reward_rate r = Some (total_rewards b / of_int tas * 100))
             \<and> (tas = 0 \<longrightarrow> effective_reward_rate r = Some 0)
             \<and> (tas = 0 \<and> (\<forall>(k, a) \<in> set monthly_spends. 0 \<le> a)
                  \<and> (\<forall>(t, p) \<in> set (milestone_benefits c). 0 < t) \<longrightarrow>
                  total_rewards b = 0
                  \<and> net_value r = of_int (welcome_value b) + lounge_value b
                                   - of_int (effective_fee b))))"
proof (cases "min_salary_req c \<le> monthly_salary")
  case False
  then show ?thesis
    by (simp add: calculate_net_value_ineligible)
next
  case True
  have zero: "fst (calculate_base_rewards c (calculate_annual_spend monthly_spends)) = 0
              \<and> fst (calculate_milestone_benefits c tas) = 0"
    if "tas = 0" "\<forall>(k, a) \<in> set monthly_spends. 0 \<le> a"
       "\<forall>(t, p) \<in> set (milestone_benefits c). 0 < t"
    using that base_rewards_zero [OF annual_spend_zero, of monthly_spends c]
      milestones_zero [of c]
    by (simp add: tas_def)
  show ?thesis
    using True zero
    by (auto simp add: calculate_net_value_eligible [OF True] tas_def)
qed

theorem reward_rate_never_raises_witness:
  "min_salary_req IndusInd_Tiger \<le> 30000
   \<and> calculate_total_spend (calculate_annual_spend zero_spends) = 0
   \<and> list_all (\<lambda>(k, a). 0 \<le> a) zero_spends
   \<and> list_all (\<lambda>(t, p). 0 < t) (milestone_benefits IndusInd_Tiger)
   \<and> (\<exists>r b. calculate_net_value IndusInd_Tiger 30000 zero_spends True False = Inr r
         \<and> breakdown r = Some b
         \<and> effective_reward_rate r = Some 0 \<and> total_rewards b = 0
         \<and> net_value r = of_int (welcome_value b) + lounge_value b
                          - of_int (effective_fee b))
   \<and> min_salary_req SBI_SimplyCLICK \<le> 75000
   \<and> 0 < calculate_total_spend (calculate_annual_spend scenario_spends)
   \<and> (\<exists>r b. calculate_net_value SBI_SimplyCLICK 75000 scenario_spends False True = Inr r
         \<and> breakdown r = Some b \<and> total_rewards b = 7500
         \<and> effective_reward_rate r = Some (7500 / 480000 * 100))"
proof -
  have e: "min_salary_req IndusInd_Tiger \<le> 30000"
    by (simp add: IndusInd_Tiger_def)
  have nonneg: "\<forall>(k, a) \<in> set zero_spends. 0 \<le> a"
    by (simp add: zero_spends_def)
  have pos: "\<forall>(t, p) \<in> set (milestone_benefits IndusInd_Tiger). 0 < t"
    by (simp add: IndusInd_Tiger_def)
  from reward_rate_never_raises [of IndusInd_Tiger 30000 zero_spends True False]
    e nonneg pos zero_total
  have zero: "\<exists>r b. calculate_net_value IndusInd_Tiger 30000 zero_spends True False = Inr r
         \<and> breakdown r = Some b
         \<and> effective_reward_rate r = Some 0 \<and> total_rewards b = 0
         \<and> net_value r = of_int (welcome_value b) + lounge_value b
                          - of_int (effective_fee b)"
    by auto
  have p: "0 < calculate_total_spend (calculate_annual_spend scenario_spends)"
    by (simp add: scenario_total)
  from reward_rate_never_raises [of SBI_SimplyCLICK 75000 scenario_spends False True]
    min_salary_SBI
  obtain r b where rb:
    "calculate_net_value SBI_SimplyCLICK 75000 scenario_spends False True = Inr r"
    "breakdown r = Some b"
    "effective_reward_rate r = Some (total_rewards b / 480000 * 100)"
    by (auto simp add: scenario_total)
  from calculate_net_value_eligible [OF min_salary_SBI, of scenario_spends False True] rb(1,2)
  have "total_rewards b = 7500"
    by (auto simp add: SBI_rewards)
  with rb have pos_case:
    "\<exists>r b. calculate_net_value SBI_SimplyCLICK 75000 scenario_spends False True = Inr r
         \<and> breakdown r = Some b \<and> total_rewards b = 7500
         \<and> effective_reward_rate r = Some (7500 / 480000 * 100)"
    by (intro exI [of _ r] exI [of _ b]) simp
  have nonneg_list: "list_all (\<lambda>(k, a). 0 \<le> a) zero_spends"
    using nonneg by (simp add: list_all_iff)
  have pos_list: "list_all (\<lambda>(t, p). 0 < t) (milestone_benefits IndusInd_Tiger)"
    using pos by (simp add: list_all_iff)
  from e zero_total nonneg_list pos_list zero min_salary_SBI p pos_case show ?thesis
    by (intro conjI)
qed

subsection \<open>The ranking\<close>

text \<open>
  In the three theorems of this subsection a card is kept when it passes the two
  \<^verbatim>\<open>continue\<close> filters of the loop and the salary check of the valuation, and the list
  \<open>as\<close> holds the results of the kept cards in the order of the input sequence.
\<close>

text \<open>
  C3. For every input card sequence and profile, the ranking returns a list that is
  sorted by net value in descending order, and for every net value the results that have
  it appear in the same order as their cards appear in the input sequence.
\<close>

theorem rank_cards_sorted_stable:
  "\<exists>rs as. rank_cards cards monthly_salary monthly_spends needs_lounge lifetime_free_only
              is_first_year = Inr rs
     \<and> map Inr as =
         map (\<lambda>c. calculate_net_value c monthly_salary monthly_spends needs_lounge
                    is_first_year)
           (filter (\<lambda>c. \<not> (lifetime_free_only \<and> annual_fee c > 0)
                         \<and> \<not> (needs_lounge \<and> lounge_visits_per_quarter c = 0)
                         \<and> min_salary_req c \<le> monthly_salary) cards)
     \<and> sorted_wrt (\<lambda>a b. net_value a \<ge> net_value b) rs
     \<and> (\<forall>v. filter (\<lambda>r. net_value r = v) rs = filter (\<lambda>r. net_value r = v) as)"
proof -
  from rank_cards_eq [of cards monthly_salary monthly_spends needs_lounge lifetime_free_only
      is_first_year]
  obtain as where
    as: "rank_cards cards monthly_salary monthly_spends needs_lounge lifetime_free_only
           is_first_year = Inr (py_sort_reverse net_value as)"
        "map Inr as =
           map (\<lambda>c. calculate_net_value c monthly_salary monthly_spends needs_lounge
                      is_first_year)
             (filter (\<lambda>c. \<not> (lifetime_free_only \<and> annual_fee c > 0)
                           \<and> \<not> (needs_lounge \<and> lounge_visits_per_quarter c = 0)
                           \<and> min_salary_req c \<le> monthly_salary) cards)"
    by blast
  have "sorted_wrt (\<lambda>a b. net_value a \<ge> net_value b) (py_sort_reverse net_value as)"
    by (rule py_sort_reverse_sorted)
  moreover have "\<forall>v. filter (\<lambda>r. net_value r = v) (py_sort_reverse net_value as)
                     = filter (\<lambda>r. net_value r = v) as"
    by (simp add: py_sort_reverse_stable)
  ultimately show ?thesis
    using as by (intro exI [of _ "py_sort_reverse net_value as"] exI [of _ as]) simp
qed

theorem rank_cards_sorted_stable_witness:
  "(\<exists>rs. rank_cards example_cards 75000 scenario_spends False False True = Inr rs
     \<and> map (\<lambda>r. (res_card_name r, net_value r)) rs =
         [(''Axis Flipkart'', 11400), (''IndusInd Tiger'', 11250), (''SBI SimplyCLICK'', 9000)]
     \<and> sorted_wrt (\<lambda>a b. net_value a \<ge> net_value b) rs)
   \<and> map_sum id (map (\<lambda>r. (res_card_name r, net_value r)))
        (rank_cards [SBI_SimplyCLICK, Axis_Flipkart, IndusInd_Tiger] 75000 zero_spends
           False False False)
      = Inr [(''Axis Flipkart'', 0), (''IndusInd Tiger'', 0), (''SBI SimplyCLICK'', - 499)]
   \<and> map_sum id (map (\<lambda>r. (res_card_name r, net_value r)))
        (rank_cards [SBI_SimplyCLICK, IndusInd_Tiger, Axis_Flipkart] 75000 zero_spends
           False False False)
      = Inr [(''IndusInd Tiger'', 0), (''Axis Flipkart'', 0), (''SBI SimplyCLICK'', - 499)]"
proof -
  from rank_cards_sorted_stable [of example_cards 75000 scenario_spends False False True]
  obtain rs where
    rs: "rank_cards example_cards 75000 scenario_spends False False True = Inr rs"
        "sorted_wrt (\<lambda>a b. net_value a \<ge> net_value b) rs"
    by (elim exE conjE)
  from ranking_example rs(1)
  have "map (\<lambda>r. (res_card_name r, net_value r)) rs =
         [(''Axis Flipkart'', 11400), (''IndusInd Tiger'', 11250), (''SBI SimplyCLICK'', 9000)]"
    by simp
  with rs have "\<exists>rs. rank_cards example_cards 75000 scenario_spends False False True = Inr rs
     \<and> map (\<lambda>r. (res_card_name r, net_value r)) rs =
         [(''Axis Flipkart'', 11400), (''IndusInd Tiger'', 11250), (''SBI SimplyCLICK'', 9000)]
     \<and> sorted_wrt (\<lambda>a b. net_value a \<ge> net_value b) rs"
    by (intro exI [of _ rs] conjI) simp_all
  with tie_ranking_example tie_ranking_example_swapped show ?thesis
    by (intro conjI)
qed

text \<open>
  C4. For every input sequence of cards whose annual fees and lounge visits are not
  negative, as the data model requires: every entry of the ranking is eligible and is the
  valuation of a card of the input; when the lifetime-free-only filter is set that card
  has \<open>annual_fee = 0\<close>, and when the lounge filter is set it has
  \<open>lounge_visits_per_quarter > 0\<close>.
\<close>

theorem rank_cards_filters:
  assumes "\<forall>c \<in> set cards. 0 \<le> annual_fee c \<and> 0 \<le> lounge_visits_per_quarter c"
  shows "\<exists>rs. rank_cards cards monthly_salary monthly_spends needs_lounge lifetime_free_only
              is_first_year = Inr rs
     \<and> (\<forall>r \<in> set rs. is_eligible r
          \<and> (\<exists>c \<in> set cards.
                calculate_net_value c monthly_salary monthly_spends needs_lounge is_first_year
                  = Inr r
                \<and> (lifetime_free_only \<longrightarrow> annual_fee c = 0)
                \<and> (needs_lounge \<longrightarrow> lounge_visits_per_quarter c > 0)))"
proof -
  let ?keep = "\<lambda>c. \<not> (lifetime_free_only \<and> annual_fee c > 0)
                           \<and> \<not> (needs_lounge \<and> lounge_visits_per_quarter c = 0)
                           \<and> min_salary_req c \<le> monthly_salary"
  let ?calc = "\<lambda>c. calculate_net_value c monthly_salary monthly_spends needs_lounge
                      is_first_year"
  from rank_cards_eq [of cards monthly_salary monthly_spends needs_lounge lifetime_free_only
      is_first_year]
  obtain as where
    as: "rank_cards cards monthly_salary monthly_spends needs_lounge lifetime_free_only
           is_first_year = Inr (py_sort_reverse net_value as)"
        "map Inr as = map ?calc (filter ?keep cards)"
        "\<forall>r \<in> set as. is_eligible r"
    by blast
  have entry: "is_eligible r \<and> (\<exists>c \<in> set cards. ?calc c = Inr r
                \<and> (lifetime_free_only \<longrightarrow> annual_fee c = 0)
                \<and> (needs_lounge \<longrightarrow> lounge_visits_per_quarter c > 0))"
    if "r \<in> set (py_sort_reverse net_value as)" for r
  proof -
    from that have ras: "r \<in> set as"
      by (simp add: py_sort_reverse_def)
    then have "Inr r \<in> set (map Inr as :: (py_error + analysis) list)"
      by simp
    then have "Inr r \<in> set (map ?calc (filter ?keep cards))"
      by (simp only: as(2))
    then obtain c where c: "c \<in> set cards" "?keep c" "?calc c = Inr r"
      by auto
    from assms c(1) have nonneg: "0 \<le> annual_fee c" "0 \<le> lounge_visits_per_quarter c"
      by auto
    from c(2) nonneg have "lifetime_free_only \<longrightarrow> annual_fee c = 0"
      by auto
    moreover from c(2) nonneg have "needs_lounge \<longrightarrow> lounge_visits_per_quarter c > 0"
      by auto
    moreover from ras as(3) have "is_eligible r"
      by simp
    ultimately show ?thesis
      using c(1) c(3) by (intro conjI bexI [of _ c]) simp_all
  qed
  show ?thesis
    using as(1) entry by (intro exI [of _ "py_sort_reverse net_value as"]) simp
qed

theorem rank_cards_filters_witness:
  "list_all (\<lambda>c. 0 \<le> annual_fee c \<and> 0 \<le> lounge_visits_per_quarter c) example_cards
   \<and> (\<exists>rs. rank_cards example_cards 75000 scenario_spends True True True = Inr rs
        \<and> map res_card_name rs = [''IndusInd Tiger'']
        \<and> (\<forall>r \<in> set rs. is_eligible r
             \<and> (\<exists>c \<in> set example_cards.
                   calculate_net_value c 75000 scenario_spends True True = Inr r
                   \<and> annual_fee c = 0 \<and> lounge_visits_per_quarter c > 0)))"
proof -
  from rank_cards_filters [OF example_cards_valid, of 75000 scenario_spends True True True]
  obtain rs where
    rs: "rank_cards example_cards 75000 scenario_spends True True True = Inr rs"
        "\<forall>r \<in> set rs. is_eligible r
             \<and> (\<exists>c \<in> set example_cards.
                   calculate_net_value c 75000 scenario_spends True True = Inr r
                   \<and> annual_fee c = 0 \<and> lounge_visits_per_quarter c > 0)"
    by (elim exE conjE) simp
  from filtered_ranking_example rs(1)
  have "map res_card_name rs = [''IndusInd Tiger'']"
    by simp
  moreover
  have "list_all (\<lambda>c. 0 \<le> annual_fee c \<and> 0 \<le> lounge_visits_per_quarter c) example_cards"
    using example_cards_valid by (simp add: list_all_iff)
  ultimately show ?thesis
    using rs by (intro exI [of _ rs] conjI) simp_all
qed

text \<open>
  C10. For every input card sequence and profile, the entries of the ranking are, up to
  their order, the valuations of the kept cards, one entry for each kept card and none
  for any other card; the ranking is never longer than the input.
\<close>

theorem rank_cards_one_result_per_card:
  "\<exists>rs as. rank_cards cards monthly_salary monthly_spends needs_lounge lifetime_free_only
              is_first_year = Inr rs
     \<and> map Inr as =
         map (\<lambda>c. calculate_net_value c monthly_salary monthly_spends needs_lounge
                    is_first_year)
           (filter (\<lambda>c. \<not> (lifetime_free_only \<and> annual_fee c > 0)
                         \<and> \<not> (needs_lounge \<and> lounge_visits_per_quarter c = 0)
                         \<and> min_salary_req c \<le> monthly_salary) cards)
     \<and> mset rs = mset as
     \<and> length rs \<le> length cards"
proof -
  let ?keep = "\<lambda>c. \<not> (lifetime_free_only \<and> annual_fee c > 0)
                           \<and> \<not> (needs_lounge \<and> lounge_visits_per_quarter c = 0)
                           \<and> min_salary_req c \<le> monthly_salary"
  let ?calc = "\<lambda>c. calculate_net_value c monthly_salary monthly_spends needs_lounge
                      is_first_year"
  from rank_cards_eq [of cards monthly_salary monthly_spends needs_lounge lifetime_free_only
      is_first_year]
  obtain as where
    as: "rank_cards cards monthly_salary monthly_spends needs_lounge lifetime_free_only
           is_first_year = Inr (py_sort_reverse net_value as)"
        "map Inr as = map ?calc (filter ?keep cards)"
    by blast
  have "length (map Inr as :: (py_error + analysis) list)
          = length (map ?calc (filter ?keep cards))"
    by (simp only: as(2))
  then have "length as = length (filter ?keep cards)"
    by simp
  then have "length as \<le> length cards"
    by simp
  moreover have "length (py_sort_reverse net_value as) = length as"
    by (simp add: py_sort_reverse_def)
  moreover have "mset (py_sort_reverse net_value as) = mset as"
    by (rule py_sort_reverse_mset)
  ultimately show ?thesis
    using as by (intro exI [of _ "py_sort_reverse net_value as"] exI [of _ as]) simp
qed

theorem rank_cards_one_result_per_card_witness:
  "\<exists>rs. rank_cards example_cards 75000 scenario_spends False False True = Inr rs
     \<and> length rs = 3 \<and> length example_cards = 4 \<and> length rs \<le> length example_cards"
proof -
  from rank_cards_one_result_per_card
    [of example_cards 75000 scenario_spends False False True]
  obtain rs where
    rs: "rank_cards example_cards 75000 scenario_spends False False True = Inr rs"
        "length rs \<le> length example_cards"
    by (elim exE conjE)
  from ranking_example rs(1)
  have "map (\<lambda>r. (res_card_name r, net_value r)) rs =
         [(''Axis Flipkart'', 11400), (''IndusInd Tiger'', 11250), (''SBI SimplyCLICK'', 9000)]"
    by simp
  then have "length (map (\<lambda>r. (res_card_name r, net_value r)) rs) = 3"
    by simp
  then have "length rs = 3"
    by simp
  moreover have "length example_cards = 4"
    by (simp add: example_cards_def)
  ultimately show ?thesis
    using rs by (intro exI [of _ rs] conjI) simp_all
qed

end
